theory Spec2Isabelle
  imports Complex_Main "HOL-Library.Sublist"
begin

section \<open>Numbers of the user interface\<close>

text \<open>
  The components compute on JavaScript numbers. Finite numbers are modelled as rationals
  (exact arithmetic, no rounding); the three values a division by zero produces are kept
  apart from them, so that no division by zero is hidden in a total HOL division.
\<close>

datatype jsnum = Num rat | NaN | PosInf | NegInf

definition js_div :: "rat \<Rightarrow> rat \<Rightarrow> jsnum" where
  \<comment> \<open>\<open>a / b\<close> on finite numbers\<close>
  "js_div a b =
     (if b \<noteq> 0 then Num (a / b)
      else if a = 0 then NaN
      else if 0 < a then PosInf else NegInf)"

section \<open>Data model\<close>

text \<open>
  The session record the components read (\<open>Session\<close> of the shared schema). \<open>startedAt\<close>
  holds what \<open>new Date(session.startedAt).getTime()\<close> reads, in milliseconds, and \<open>None\<close>
  where the field is null; \<open>ratePerSecond\<close> and \<open>x4pnEarned\<close> are \<open>None\<close> where absent.
\<close>

record session =
  session_id :: string
  isActive :: bool
  startedAt :: "int option"
  ratePerSecond :: "rat option"
  x4pnEarned :: "rat option"

definition or_zero :: "rat option \<Rightarrow> rat" where
  \<comment> \<open>\<open>x || 0\<close> on a number that may be absent\<close>
  "or_zero x = (case x of None \<Rightarrow> 0 | Some r \<Rightarrow> if r = 0 then 0 else r)"

text \<open>A string that may be absent (\<open>null\<close>, \<open>undefined\<close>) is falsy when absent or empty.\<close>

definition truthy :: "string option \<Rightarrow> bool" where
  "truthy a = (case a of Some (c # cs) \<Rightarrow> True | _ \<Rightarrow> False)"

fun or_else :: "string option \<Rightarrow> string \<Rightarrow> string" where
  \<comment> \<open>\<open>a || d\<close>\<close>
  "or_else (Some (c # cs)) d = c # cs"
| "or_else _ d = d"

section \<open>The session timer\<close>

text \<open>
  \<open>elapsedTime\<close> and \<open>currentCost\<close> are the two \<open>useState\<close> cells; \<open>interval\<close> is the
  pending \<open>setInterval\<close> of the timer effect with the two constants its callback closes
  over (\<open>startTime\<close>, \<open>ratePerSecond\<close>), \<open>None\<close> when no interval is installed.
  The effect is the same text in \<open>SessionControl\<close>, \<open>SessionControlBlockchain\<close> and
  \<open>BlockchainSessionControl\<close>.
\<close>

record timer_state =
  elapsedTime :: int
  currentCost :: rat
  interval :: "(int \<times> rat) option"

definition timer_guard :: "session option \<Rightarrow> bool" where
  \<comment> \<open>\<open>!session?.isActive || !session.startedAt\<close>\<close>
  "timer_guard s =
     (case s of None \<Rightarrow> True
      | Some r \<Rightarrow> \<not> isActive r \<or> startedAt r = None)"

definition timer_effect :: "session option \<Rightarrow> 'a timer_state_scheme \<Rightarrow> 'a timer_state_scheme" where
  \<comment> \<open>the body of the effect, run with no interval of an earlier run left\<close>
  "timer_effect s st =
     (if timer_guard s then st\<lparr>elapsedTime := 0, currentCost := 0\<rparr>
      else case s of None \<Rightarrow> st
        | Some r \<Rightarrow>
            (case startedAt r of None \<Rightarrow> st
             | Some startTime \<Rightarrow> st\<lparr>interval := Some (startTime, or_zero (ratePerSecond r))\<rparr>))"

definition timer_cleanup :: "'a timer_state_scheme \<Rightarrow> 'a timer_state_scheme" where
  \<comment> \<open>\<open>() => clearInterval(interval)\<close>, also the unmount of the component\<close>
  "timer_cleanup st = st\<lparr>interval := None\<rparr>"

definition elapsed_at :: "int \<Rightarrow> int \<Rightarrow> int" where
  \<comment> \<open>\<open>Math.floor((now - startTime) / 1000)\<close>\<close>
  "elapsed_at now startTime = \<lfloor>(of_int (now - startTime) :: rat) / 1000\<rfloor>"

definition tick :: "int \<Rightarrow> 'a timer_state_scheme \<Rightarrow> 'a timer_state_scheme" where
  \<comment> \<open>the interval callback, fired at wall-clock time \<open>now\<close>; nothing fires without an interval\<close>
  "tick now st =
     (case interval st of None \<Rightarrow> st
      | Some (startTime, rate) \<Rightarrow>
          (let elapsed = elapsed_at now startTime
           in st\<lparr>elapsedTime := elapsed, currentCost := of_int elapsed * rate\<rparr>))"

section \<open>Props, component state and what the components show\<close>

text \<open>
  The three session components take the same props; the callbacks are left to the
  handlers below. \<open>userBalance\<close> is a finite number.
\<close>

record props =
  session :: "session option"
  userBalance :: rat
  isConnecting :: bool

record analysis =
  explanation :: string
  benefits :: "string list"
  score :: nat
  location :: string

text \<open>State of \<open>SessionControl\<close> (session-control.tsx).\<close>

record sc_state = timer_state +
  aiAnalysis :: "analysis option"
  isAIAnalyzing :: bool
  streamingText :: string
  isStreaming :: bool
  showAuthDialog :: bool

text \<open>
  State of \<open>BlockchainSessionControl\<close>; the wallet address of \<open>useWallet\<close> is not part of
  it and is passed where it is read.
\<close>

record bsc_state = timer_state +
  isProcessing :: bool
  nodeReasoning :: "analysis option"
  showReasoning :: bool

definition session_active :: "session option \<Rightarrow> bool" where
  \<comment> \<open>\<open>session?.isActive\<close>\<close>
  "session_active s = (case s of None \<Rightarrow> False | Some r \<Rightarrow> isActive r)"

text \<open>
  What a render shows of the timer and of the connect control: the connected branch
  with the arguments of \<open>formatTime\<close>, \<open>formatUSDC\<close>, the progress bar and \<open>formatX4PN\<close>,
  or the disconnected branch with the \<open>disabled\<close> attribute of the connect button.
\<close>

datatype view =
  ActiveView (shown_duration: int) (shown_cost: rat) (shown_progress: jsnum) (shown_earned: rat)
| InactiveView (connect_disabled: bool)

definition min_100 :: "jsnum \<Rightarrow> jsnum" where
  \<comment> \<open>\<open>Math.min(x * 100, 100)\<close>\<close>
  "min_100 x =
     (case x of Num q \<Rightarrow> Num (min (q * 100) 100)
      | NaN \<Rightarrow> NaN | PosInf \<Rightarrow> Num 100 | NegInf \<Rightarrow> NegInf)"

definition progressPercent :: "props \<Rightarrow> 'a timer_state_scheme \<Rightarrow> jsnum" where
  \<comment> \<open>\<open>SessionControl\<close> and \<open>SessionControlBlockchain\<close>\<close>
  "progressPercent p st =
     (if session_active (session p) then min_100 (js_div (currentCost st) (userBalance p))
      else Num 0)"

definition progressPercent_bsc :: "props \<Rightarrow> 'a timer_state_scheme \<Rightarrow> jsnum" where
  \<comment> \<open>\<open>BlockchainSessionControl\<close>: guarded by \<open>userBalance > 0\<close> as well\<close>
  "progressPercent_bsc p st =
     (if session_active (session p) \<and> 0 < userBalance p
      then min_100 (js_div (currentCost st) (userBalance p))
      else Num 0)"

definition render_timer :: "props \<Rightarrow> jsnum \<Rightarrow> bool \<Rightarrow> 'a timer_state_scheme \<Rightarrow> view" where
  \<comment> \<open>the \<open>session?.isActive ? ... : ...\<close> of the card, shared by the three components\<close>
  "render_timer p progress disabled st =
     (case session p of
        None \<Rightarrow> InactiveView disabled
      | Some r \<Rightarrow>
          if isActive r
          then ActiveView (elapsedTime st) (currentCost st) progress
                 (or_zero (x4pnEarned r) + currentCost st * 10)
          else InactiveView disabled)"

definition render_sc :: "props \<Rightarrow> 'a sc_state_scheme \<Rightarrow> view" where
  \<comment> \<open>\<open>disabled={isConnecting || userBalance <= 0 || isAIAnalyzing}\<close>\<close>
  "render_sc p st =
     render_timer p (progressPercent p st)
       (isConnecting p \<or> userBalance p \<le> 0 \<or> isAIAnalyzing st) st"

definition render_scb :: "props \<Rightarrow> 'a timer_state_scheme \<Rightarrow> view" where
  \<comment> \<open>\<open>SessionControlBlockchain\<close>: \<open>disabled={isConnecting || userBalance <= 0}\<close>\<close>
  "render_scb p st =
     render_timer p (progressPercent p st) (isConnecting p \<or> userBalance p \<le> 0) st"

definition render_bsc :: "props \<Rightarrow> string option \<Rightarrow> 'a bsc_state_scheme \<Rightarrow> view" where
  \<comment> \<open>\<open>disabled={isConnecting || userBalance <= 0 || !address || isProcessing}\<close>\<close>
  "render_bsc p address st =
     render_timer p (progressPercent_bsc p st)
       (isConnecting p \<or> userBalance p \<le> 0 \<or> \<not> truthy address \<or> isProcessing st) st"

definition connect_clickable :: "view \<Rightarrow> bool" where
  \<comment> \<open>a click reaches the connect handler: the button is rendered and not disabled\<close>
  "connect_clickable v = (case v of ActiveView _ _ _ _ \<Rightarrow> False | InactiveView d \<Rightarrow> \<not> d)"

section \<open>A mounted component over time\<close>

text \<open>
  React renders the component with the props it is given and runs an effect afterwards,
  once the render is committed: first the cleanup of the effect's earlier run, then its
  body. \<open>effect_pending\<close> holds between a render with a new \<open>session\<close> prop and that run.
  The events are a render with a (new) session prop, the run of the pending effect, and
  the firing of the interval at some wall-clock time.
\<close>

record mounted = timer_state +
  cur_session :: "session option"
  effect_pending :: bool

datatype event = Rerender "session option" | Flush | Tick int

definition mount :: "session option \<Rightarrow> mounted" where
  \<comment> \<open>first render: \<open>useState(0)\<close> twice, the effect still to run\<close>
  "mount s = \<lparr>elapsedTime = 0, currentCost = 0, interval = None,
              cur_session = s, effect_pending = True\<rparr>"

fun step :: "event \<Rightarrow> mounted \<Rightarrow> mounted" where
  "step (Rerender s) st = st\<lparr>cur_session := s, effect_pending := True\<rparr>"
| "step Flush st =
     (if effect_pending st
      then (timer_effect (cur_session st) (timer_cleanup st))\<lparr>effect_pending := False\<rparr>
      else st)"
| "step (Tick now) st = tick now st"

fun run :: "event list \<Rightarrow> mounted \<Rightarrow> mounted" where
  "run [] st = st"
| "run (e # es) st = run es (step e st)"

definition settled :: "mounted \<Rightarrow> bool" where
  \<comment> \<open>if the effect has run for an inactive session, both cells are 0 and no interval is left\<close>
  "settled st =
     (effect_pending st \<or> session_active (cur_session st)
      \<or> (elapsedTime st = 0 \<and> currentCost st = 0 \<and> interval st = None))"


section \<open>Strings: \<open>String.prototype.replace\<close> with a string pattern\<close>

fun find_first :: "string \<Rightarrow> string \<Rightarrow> (string \<times> string) option" where
  \<comment> \<open>the text before and the text after the first occurrence of the pattern\<close>
  "find_first pat [] = (if pat = [] then Some ([], []) else None)"
| "find_first pat (c # cs) =
     (if prefix pat (c # cs) then Some ([], drop (length pat) (c # cs))
      else map_option (\<lambda>(pre, post). (c # pre, post)) (find_first pat cs))"

fun get_substitution :: "string \<Rightarrow> string \<Rightarrow> string \<Rightarrow> string \<Rightarrow> string" where
  \<comment> \<open>the replacement text: \<open>$$\<close>, \<open>$&\<close>, \<open>$`\<close> and \<open>$'\<close> are expanded; a string pattern
      has no captures, so every other \<open>$\<close> stands for itself\<close>
  "get_substitution matched pre post (a # b # r) =
     (if a = CHR ''$'' \<and> b = CHR ''$'' then CHR ''$'' # get_substitution matched pre post r
      else if a = CHR ''$'' \<and> b = CHR ''&'' then matched @ get_substitution matched pre post r
      else if a = CHR ''$'' \<and> b = CHR 0x60 then pre @ get_substitution matched pre post r
      else if a = CHR ''$'' \<and> b = CHR 0x27 then post @ get_substitution matched pre post r
      else a # get_substitution matched pre post (b # r))"
| "get_substitution matched pre post r = r"

definition js_replace :: "string \<Rightarrow> string \<Rightarrow> string \<Rightarrow> string" where
  \<comment> \<open>\<open>s.replace(pat, rep)\<close>: only the first occurrence is replaced\<close>
  "js_replace pat rep s =
     (case find_first pat s of
        None \<Rightarrow> s
      | Some (pre, post) \<Rightarrow> pre @ get_substitution pat pre post rep @ post)"

fun occurrences :: "string \<Rightarrow> string \<Rightarrow> nat" where
  \<comment> \<open>the number of positions of the text at which the pattern occurs\<close>
  "occurrences pat [] = (if pat = [] then 1 else 0)"
| "occurrences pat (c # cs) = (if prefix pat (c # cs) then 1 else 0) + occurrences pat cs"

section \<open>The canned analyses\<close>

text \<open>
  \<open>pick r xs\<close> is \<open>xs[Math.floor(r * xs.length)]\<close> for a value \<open>r\<close> of \<open>Math.random()\<close>,
  which is at least 0 and less than 1; \<open>None\<close> is an index out of range, which such an
  \<open>r\<close> never gives.
\<close>

definition pick :: "rat \<Rightarrow> 'a list \<Rightarrow> 'a option" where
  "pick r xs =
     (let i = \<lfloor>r * of_nat (length xs)\<rfloor>
      in if 0 \<le> i \<and> i < int (length xs) then Some (xs ! nat i) else None)"

definition generate :: "string list \<Rightarrow> (string \<times> string list \<times> nat) list \<Rightarrow> rat \<Rightarrow> rat \<Rightarrow> analysis option" where
  \<comment> \<open>the body the three generators share; \<open>r1\<close> and \<open>r2\<close> are the two values of \<open>Math.random()\<close>
      in the order of the calls\<close>
  "generate locs opts r1 r2 =
     (case pick r1 locs of
        None \<Rightarrow> None
      | Some randomLocation \<Rightarrow>
          (case pick r2 opts of
             None \<Rightarrow> None
           | Some (e, b, sc) \<Rightarrow>
               Some \<lparr>explanation = js_replace ''{location}'' randomLocation e,
                     benefits = b, score = sc, location = randomLocation\<rparr>))"

definition locations :: "string list" where
  \<comment> \<open>SessionControl.generateAIAnalysis\<close>
  "locations =
     [''Singapore'',
      ''Frankfurt'',
      ''Tokyo'',
      ''Virginia'',
      ''Mumbai'',
      ''London'',
      ''Sydney'',
      ''Toronto'',
      ''S'' @ [CHR 0xE3] @ ''o Paulo'',
      ''Seoul'']"

definition analysisOptions :: "(string \<times> string list \<times> nat) list" where
  "analysisOptions =
     [(''Analysis complete. Based on comprehensive network evaluation, {location} provides optimal connectivity for your region with minimal latency spikes and reliable throughput. The server maintains excellent routing efficiency with direct peering to major networks, ensuring consistent performance during peak hours.'',
       [''Low Latency'', ''High Reliability'', ''Cost Effective''], 92),
      (''Network analysis finalized. {location} offers the best balance of speed, stability, and security for your current requirements. Our algorithms detected superior packet delivery rates and minimal jitter, making this location ideal for streaming and data-intensive applications.'',
       [''Optimal Speed'', ''Network Stability'', ''Enhanced Security''], 91),
      (''Evaluation complete. After assessing multiple performance factors, {location} emerges as the top choice with superior routing efficiency and consistent performance metrics. The server demonstrates excellent uptime history and efficient bandwidth allocation.'',
       [''Efficient Routing'', ''Consistent Performance'', ''Value Optimized''], 90),
      (''Real-time data analysis finalized. {location} maintains excellent uptime with minimal congestion, ideal for uninterrupted VPN sessions. The location provides geographic advantages with multiple redundant connections ensuring maximum availability.'',
       [''Excellent Uptime'', ''Low Congestion'', ''Streaming Ready''], 93)]"

definition locations_scb :: "string list" where
  \<comment> \<open>SessionControlBlockchain.generateAIAnalysis\<close>
  "locations_scb =
     [''Singapore'',
      ''Frankfurt'',
      ''Tokyo'',
      ''Virginia'',
      ''Mumbai'',
      ''London'',
      ''Sydney'',
      ''Toronto'',
      ''S'' @ [CHR 0xE3] @ ''o Paulo'',
      ''Seoul'']"

definition analysisOptions_scb :: "(string \<times> string list \<times> nat) list" where
  "analysisOptions_scb =
     [(''AI detected {location} as optimal for your connection pattern. This location provides low-latency routing with excellent throughput for data-intensive applications.'',
       [''Optimal Routing'', ''High Throughput'', ''Data Optimized''], 93),
      (''Selected {location} server based on network congestion analysis. This node maintains stable connections with minimal jitter for smooth browsing and streaming.'',
       [''Low Congestion'', ''Stable Connection'', ''Minimal Jitter''], 91),
      (''Chose {location} for its cost-performance ratio. The AI calculated this offers the best value while maintaining reliable speeds for everyday use.'',
       [''Best Value'', ''Reliable Speed'', ''Cost Efficient''], 89),
      (''{location} server selected for geographic advantage and network redundancy. Multiple backbone connections ensure maximum uptime and availability.'',
       [''Network Redundancy'', ''Maximum Uptime'', ''Geographic Edge''], 94),
      (''Real-time analysis shows {location} delivers superior packet delivery rates. This location balances latency and bandwidth for optimal VPN experience.'',
       [''Superior Delivery'', ''Balanced Performance'', ''Real-time Optimized''], 92)]"

definition locations_bsc :: "string list" where
  \<comment> \<open>BlockchainSessionControl.generateNodeReasoning\<close>
  "locations_bsc =
     [''Singapore'',
      ''Frankfurt'',
      ''Virginia'',
      ''Tokyo'',
      ''Bangalore'',
      ''London'',
      ''Mumbai'',
      ''San Francisco'',
      ''Sydney'',
      ''Toronto'']"

definition reasoningOptions :: "(string \<times> string list \<times> nat) list" where
  "reasoningOptions =
     [(''Our AI selected a server in {location} for optimal latency to your region. This node provides direct peering with major networks and maintains excellent throughput for streaming and browsing.'',
       [''Low Latency'', ''Direct Peering'', ''Streaming Optimized''], 94),
      (''Chosen a {location}-based server for its superior network redundancy and uptime history. The AI detected multiple failover paths ensuring uninterrupted VPN service with minimal packet loss.'',
       [''High Availability'', ''Network Redundancy'', ''Minimal Packet Loss''], 91),
      (''AI analyzed current network conditions and selected {location} as the most cost-effective location without compromising speed. This server maintains optimal user distribution for uncongested bandwidth.'',
       [''Cost Effective'', ''Light Load'', ''Balanced Performance''], 89),
      (''Selected {location} server for its geographic positioning advantages and proven reliability. The node offers consistent speeds with efficient routing to minimize latency spikes.'',
       [''Geographic Advantage'', ''Consistent Speed'', ''Efficient Routing''], 92),
      (''The algorithm chose {location} based on real-time performance metrics showing superior packet delivery and stable connections. This location balances price and performance effectively.'',
       [''Real-time Optimized'', ''Stable Connection'', ''Value Pricing''], 90)]"

definition generateAIAnalysis :: "rat \<Rightarrow> rat \<Rightarrow> analysis option" where
  \<comment> \<open>\<open>SessionControl\<close>; its constant table \<open>reasoningSteps\<close> is attached unchanged and left out\<close>
  "generateAIAnalysis = generate locations analysisOptions"

definition generateAIAnalysis_scb :: "rat \<Rightarrow> rat \<Rightarrow> analysis option" where
  \<comment> \<open>\<open>SessionControlBlockchain\<close>\<close>
  "generateAIAnalysis_scb = generate locations_scb analysisOptions_scb"

definition generateNodeReasoning :: "rat \<Rightarrow> rat \<Rightarrow> analysis option" where
  \<comment> \<open>\<open>BlockchainSessionControl\<close>\<close>
  "generateNodeReasoning = generate locations_bsc reasoningOptions"

section \<open>Promises, errors and exceptions\<close>

text \<open>
  An awaited call of a collaborator (wallet, contract, transaction) either resolves or
  rejects with an error object, of which the handlers read \<open>reason\<close> and \<open>message\<close>.
  A handler is modelled by the list of its effects in the order in which they happen:
  the calls it makes and the state setters it invokes. A block of statements that may
  throw yields the effects up to the throw and the error thrown, if any.
\<close>

record js_error =
  reason :: "string option"
  message :: "string option"

datatype 'a outcome = Resolved 'a | Rejected js_error

definition await :: "'e \<Rightarrow> 'a outcome \<Rightarrow> 'e list \<times> js_error option" where
  \<comment> \<open>\<open>await call(...)\<close>: the call is made; a rejection is thrown\<close>
  "await call r = ([call], case r of Resolved v \<Rightarrow> None | Rejected e \<Rightarrow> Some e)"

fun seq :: "('e list \<times> js_error option) list \<Rightarrow> 'e list \<times> js_error option" where
  \<comment> \<open>statements in sequence: the first throw ends the block\<close>
  "seq [] = ([], None)"
| "seq ((es, None) # rest) = (case seq rest of (es', r) \<Rightarrow> (es @ es', r))"
| "seq ((es, Some e) # rest) = (es, Some e)"

definition try_catch_finally ::
  "'e list \<times> js_error option \<Rightarrow> (js_error \<Rightarrow> 'e list) \<Rightarrow> 'e list \<Rightarrow> 'e list" where
  \<comment> \<open>\<open>try { body } catch (err) { handler } finally { final }\<close>, the handler not throwing\<close>
  "try_catch_finally body handler final =
     (case body of (es, r) \<Rightarrow>
        es @ (case r of None \<Rightarrow> [] | Some e \<Rightarrow> handler e) @ final)"

record receipt =
  status :: "int option"

definition receipt_ok :: "receipt option outcome \<Rightarrow> bool" where
  \<comment> \<open>\<open>receipt && receipt.status === 1\<close> on what \<open>tx.wait()\<close> resolved to\<close>
  "receipt_ok r =
     (case r of Resolved (Some rc) \<Rightarrow> status rc = Some 1 | _ \<Rightarrow> False)"

definition transaction_failed :: js_error where
  \<comment> \<open>\<open>new Error("Transaction failed")\<close>\<close>
  "transaction_failed = \<lparr>reason = None, message = Some ''Transaction failed''\<rparr>"

section \<open>The on-chain rate\<close>

text \<open>
  \<open>ethers.parseUnits(value, decimals)\<close> of the ethers library, after its documentation:
  a decimal string, with an optional sign and an optional fraction of at most \<open>decimals\<close>
  significant digits, is read as the integer \<open>value * 10 ^ decimals\<close>; anything else
  throws (\<open>None\<close>). BigInt division truncates towards zero and throws on a zero divisor.
\<close>

definition digit_val :: "char \<Rightarrow> nat option" where
  "digit_val = map_of (zip ''0123456789'' [0, 1, 2, 3, 4, 5, 6, 7, 8, 9])"

fun digits_val :: "nat \<Rightarrow> string \<Rightarrow> nat option" where
  "digits_val acc [] = Some acc"
| "digits_val acc (c # cs) =
     (case digit_val c of None \<Rightarrow> None | Some d \<Rightarrow> digits_val (acc * 10 + d) cs)"

definition split_dot :: "string \<Rightarrow> string \<times> string" where
  "split_dot s =
     (takeWhile (\<lambda>c. c \<noteq> CHR ''.'') s, drop 1 (dropWhile (\<lambda>c. c \<noteq> CHR ''.'') s))"

definition parseUnits :: "string \<Rightarrow> nat \<Rightarrow> int option" where
  "parseUnits v decimals =
     (let neg = (take 1 v = ''-'');
          body = (if neg then drop 1 v else v);
          whole = fst (split_dot body);
          frac = snd (split_dot body);
          padded = frac @ replicate (decimals - length frac) (CHR ''0'')
      in if whole @ frac = [] then None
         else if \<not> list_all (\<lambda>c. c = CHR ''0'') (drop decimals padded) then None
         else case digits_val 0 (whole @ take decimals padded) of
                None \<Rightarrow> None
              | Some n \<Rightarrow> Some (if neg then - int n else int n))"

definition bigint_div :: "int \<Rightarrow> int \<Rightarrow> int option" where
  "bigint_div a b =
     (if b = 0 then None else Some (sgn a * sgn b * (\<bar>a\<bar> div \<bar>b\<bar>)))"

definition connect_rate :: "int option" where
  \<comment> \<open>\<open>ratePerMinuteWei = ethers.parseUnits("2", 6); ratePerSecond = ratePerMinuteWei / BigInt(60)\<close>\<close>
  "connect_rate =
     (case parseUnits ''2'' 6 of
        None \<Rightarrow> None
      | Some ratePerMinuteWei \<Rightarrow> bigint_div ratePerMinuteWei 60)"

definition dummyAddress :: string where
  "dummyAddress = ''0xa9bd972853e366cd908591bc929a2e68006aba02''"

section \<open>\<open>SessionControl\<close>: the connect click\<close>


datatype sc_event =
  SetShowAuthDialog bool
| AwaitConnectWallet
| SetIsAIAnalyzing bool
| SetAiAnalysis "analysis option"
| SetStreamingText string
| AppendStreamingText string
| SetIsStreaming bool
| Sleep nat
| CallOnConnect
| Uncaught


fun stream_words :: "nat \<Rightarrow> string list \<Rightarrow> sc_event list" where
  \<comment> \<open>the loop of \<open>streamText\<close>, from index \<open>i\<close>\<close>
  "stream_words i [] = []"
| "stream_words i (w # ws) =
     [AppendStreamingText ((if i = 0 then [] else '' '') @ w), Sleep 30] @ stream_words (Suc i) ws"





section \<open>\<open>BlockchainSessionControl\<close>: connect and disconnect\<close>

text \<open>
  What a run of \<open>handleConnect\<close> or \<open>handleDisconnect\<close> is given: the wallet address of
  \<open>useWallet\<close>, whether \<open>window.ethereum\<close> is there, the two values of \<open>Math.random()\<close>,
  the outcome of each awaited call, and whether the optional \<open>onSessionChange\<close> prop is
  given. \<open>getSigner\<close> stands for creating the provider and requesting the signer from
  the wallet.
\<close>

record bsc_env =
  address :: "string option"
  has_ethereum :: bool
  random1 :: rat
  random2 :: rat
  getSigner :: "unit outcome"
  startVPNSession :: "unit outcome"
  start_wait :: "receipt option outcome"
  settleVPNSession :: "unit outcome"
  settle_wait :: "receipt option outcome"
  endVPNSession :: "unit outcome"
  end_wait :: "receipt option outcome"
  onSessionChange :: bool

datatype tx = StartTx | SettleTx | EndTx

datatype bsc_event =
  Toast string string bool
| SetNodeReasoning "analysis option"
| SetShowReasoning bool
| SetIsProcessing bool
| CallGetSigner
| CallStartVPNSession string int
| CallSettleVPNSession
| CallEndVPNSession
| CallTxWait tx
| CallOnSessionChange
| ConsoleError string
| ConsoleWarn string "string option"
| UncaughtTypeError

definition notify :: "bsc_env \<Rightarrow> bsc_event list" where
  \<comment> \<open>\<open>if (onSessionChange) { onSessionChange(); }\<close>\<close>
  "notify env = (if onSessionChange env then [CallOnSessionChange] else [])"

definition connect_body :: "bsc_env \<Rightarrow> analysis \<Rightarrow> bsc_event list \<times> js_error option" where
  \<comment> \<open>the \<open>try\<close> block of \<open>handleConnect\<close>\<close>
  "connect_body env reasoning =
     seq [([SetIsProcessing True], None),
          await CallGetSigner (getSigner env),
          (case connect_rate of
             None \<Rightarrow> ([], Some \<lparr>reason = None, message = Some ''invalid BigInt''\<rparr>)
           | Some rate \<Rightarrow>
               seq [await (CallStartVPNSession dummyAddress rate) (startVPNSession env),
                    ([Toast ''AI Analyzing Network'' ''Selecting optimal VPN server...'' False], None),
                    await (CallTxWait StartTx) (start_wait env),
                    (if receipt_ok (start_wait env)
                     then ([Toast ''VPN Connected''
                              (''Connected to AI-selected server in '' @ location reasoning) False]
                           @ notify env, None)
                     else ([], Some transaction_failed))])]"

definition connect_catch :: "js_error \<Rightarrow> bsc_event list" where
  "connect_catch err =
     [ConsoleError ''Connection error:'',
      Toast ''Connection Failed''
        (or_else (reason err) (or_else (message err) ''Failed to connect to VPN'')) True]"

definition handleConnect :: "bsc_env \<Rightarrow> bsc_event list" where
  "handleConnect env =
     (if \<not> truthy (address env) then []
      else if \<not> has_ethereum env
      then [Toast ''Wallet Error'' ''MetaMask is not installed'' True]
      else case generateNodeReasoning (random1 env) (random2 env) of
             None \<Rightarrow> [UncaughtTypeError]
           | Some reasoning \<Rightarrow>
               [SetNodeReasoning (Some reasoning), SetShowReasoning True]
               @ try_catch_finally (connect_body env reasoning) connect_catch
                   [SetIsProcessing False])"








section \<open>The reasoning factors of the modal\<close>

text \<open>
  The metrics of a node that \<open>generateReasoningFactors\<close> reads (\<open>Node\<close> of the shared
  schema). Of a factor the title and the score are kept; icon, description and value
  are display strings.
\<close>

record node =
  latency :: rat
  ratePerMinute :: rat
  activeUsers :: int
  uptime :: rat




definition average :: "(node \<Rightarrow> rat) \<Rightarrow> node list \<Rightarrow> jsnum" where
  \<comment> \<open>\<open>allNodes.reduce((sum, n) => sum + f(n), 0) / allNodes.length\<close>\<close>
  "average f allNodes = js_div (foldl (\<lambda>sum n. sum + f n) 0 allNodes) (of_nat (length allNodes))"




section \<open>The database bootstrap\<close>







text \<open>
  Two devices for counting occurrences of a location by computation: every location
  begins with a character of the columns 0x40 to 0x5F (the capital letters are there),
  so only the suffixes of a text that begin with such a character can begin with a
  location.
\<close>

definition is_cap :: "char \<Rightarrow> bool" where
  "is_cap c = (digit6 c \<and> \<not> digit5 c \<and> \<not> digit7 c)"

fun caps_suffixes :: "string \<Rightarrow> string list" where
  "caps_suffixes [] = []"
| "caps_suffixes (c # cs) = (if is_cap c then [c # cs] else []) @ caps_suffixes cs"

definition pair_ok :: "string \<Rightarrow> string \<Rightarrow> bool" where
  \<comment> \<open>the check run on each template \<open>e\<close> and location \<open>l\<close> of a pool\<close>
  "pair_ok e l =
     (case find_first ''{location}'' e of
        None \<Rightarrow> False
      | Some (pre, post) \<Rightarrow>
          list_all (\<lambda>c. c \<noteq> CHR ''{'') (pre @ l @ post)
          \<and> length (filter (prefix l) (caps_suffixes (pre @ l @ post))) = Suc 0
          \<and> l \<noteq> [] \<and> is_cap (hd l) \<and> list_all (\<lambda>c. c \<noteq> CHR ''$'') l)"

section \<open>Properties of the timer\<close>

lemma elapsed_at_div: "elapsed_at now startTime = (now - startTime) div 1000"
proof -
  have "\<lfloor>(of_int (now - startTime) :: rat) / of_int 1000\<rfloor> = (now - startTime) div 1000"
    by (rule floor_divide_of_int_eq)
  then show ?thesis by (simp add: elapsed_at_def)
qed






text \<open>
  C9. A session that is active but has no start timestamp is treated as an inactive one:
  the effect zeroes both cells and installs no interval, so that no tick changes them.
\<close>

theorem timer_effect_no_start:
  assumes "isActive r" and "startedAt r = None"
  shows "timer_effect (Some r) (timer_cleanup st)
           = timer_effect (Some (r\<lparr>isActive := False\<rparr>)) (timer_cleanup st)
    \<and> elapsedTime (timer_effect (Some r) (timer_cleanup st)) = 0
    \<and> currentCost (timer_effect (Some r) (timer_cleanup st)) = 0
    \<and> interval (timer_effect (Some r) (timer_cleanup st)) = None
    \<and> tick now (timer_effect (Some r) (timer_cleanup st))
        = timer_effect (Some r) (timer_cleanup st)"
  using assms by (simp add: timer_effect_def timer_guard_def timer_cleanup_def tick_def)

theorem timer_effect_no_start_witness:
  "timer_effect (Some \<lparr>session_id = ''s1'', isActive = True, startedAt = None,
                        ratePerSecond = Some 2, x4pnEarned = None\<rparr>)
     (timer_cleanup \<lparr>elapsedTime = 7, currentCost = 14, interval = Some (0, 2)\<rparr>)
   = \<lparr>elapsedTime = 0, currentCost = 0, interval = None\<rparr>"
  using timer_effect_no_start [of
      "\<lparr>session_id = ''s1'', isActive = True, startedAt = None,
        ratePerSecond = Some 2, x4pnEarned = None\<rparr>"
      "\<lparr>elapsedTime = 7, currentCost = 14, interval = Some (0, 2)\<rparr>" 0]
  by (simp add: timer_effect_def timer_guard_def timer_cleanup_def)

subsection \<open>The cells of an inactive session\<close>

lemma settled_mount: "settled (mount s)"
  by (simp add: settled_def mount_def)

lemma settled_step: "settled st \<Longrightarrow> settled (step e st)"
proof (cases e)
  case (Rerender s)
  then show ?thesis by (simp add: settled_def)
next
  case Flush
  assume "settled st"
  with Flush show ?thesis
    by (auto simp: settled_def timer_effect_def timer_guard_def timer_cleanup_def
        session_active_def split: option.splits)
next
  case (Tick now)
  assume "settled st"
  with Tick show ?thesis
    by (auto simp: settled_def tick_def Let_def split: option.splits)
qed

lemma settled_run: "settled st \<Longrightarrow> settled (run es st)"
  by (induction es arbitrary: st) (simp_all add: settled_step)

lemma flush_inactive:
  assumes "\<not> session_active s"
  shows "elapsedTime (step Flush (step (Rerender s) st)) = 0"
    and "currentCost (step Flush (step (Rerender s) st)) = 0"
    and "interval (step Flush (step (Rerender s) st)) = None"
  using assms
  by (auto simp: timer_effect_def timer_guard_def timer_cleanup_def session_active_def
      split: option.splits)

lemma render_timer_inactive:
  assumes "\<not> session_active (session p)"
  shows "render_timer p g d st = InactiveView d"
  using assms by (auto simp: render_timer_def session_active_def split: option.splits)

text \<open>
  C2, as the code has it. Once the timer effect has run for the session prop of the
  last render, an inactive (or absent) session has \<open>elapsedTime = 0\<close>, \<open>currentCost = 0\<close>
  and no interval, in every state the component reaches, and the effect of the very render
  that made the session inactive sets them so. In the render before that run the cells
  may still hold the values of the last tick; but the view of an inactive session
  does not depend on them in any of the three components: neither is displayed.
\<close>

theorem inactive_session_zero:
  "(\<not> effect_pending (run es (mount s0)) \<and> \<not> session_active (cur_session (run es (mount s0)))
      \<longrightarrow> elapsedTime (run es (mount s0)) = 0 \<and> currentCost (run es (mount s0)) = 0
          \<and> interval (run es (mount s0)) = None)
   \<and> (\<not> session_active s
      \<longrightarrow> elapsedTime (step Flush (step (Rerender s) st)) = 0
          \<and> currentCost (step Flush (step (Rerender s) st)) = 0)
   \<and> (\<not> session_active (session p)
      \<longrightarrow> render_sc p c1 = render_sc p (c1\<lparr>elapsedTime := e, currentCost := c\<rparr>)
          \<and> render_scb p c2 = render_scb p (c2\<lparr>elapsedTime := e, currentCost := c\<rparr>)
          \<and> render_bsc p a c3 = render_bsc p a (c3\<lparr>elapsedTime := e, currentCost := c\<rparr>))"
proof (intro conjI impI)
  assume h: "\<not> effect_pending (run es (mount s0)) \<and> \<not> session_active (cur_session (run es (mount s0)))"
  have "settled (run es (mount s0))"
    by (rule settled_run [OF settled_mount])
  with h show "elapsedTime (run es (mount s0)) = 0" "currentCost (run es (mount s0)) = 0"
    "interval (run es (mount s0)) = None"
    by (simp_all add: settled_def)
next
  assume "\<not> session_active s"
  then show "elapsedTime (step Flush (step (Rerender s) st)) = 0"
    "currentCost (step Flush (step (Rerender s) st)) = 0"
    by (rule flush_inactive)+
next
  assume h: "\<not> session_active (session p)"
  show "render_sc p c1 = render_sc p (c1\<lparr>elapsedTime := e, currentCost := c\<rparr>)"
    by (simp add: render_sc_def render_timer_inactive [OF h])
  show "render_scb p c2 = render_scb p (c2\<lparr>elapsedTime := e, currentCost := c\<rparr>)"
    by (simp add: render_scb_def render_timer_inactive [OF h])
  show "render_bsc p a c3 = render_bsc p a (c3\<lparr>elapsedTime := e, currentCost := c\<rparr>)"
    by (simp add: render_bsc_def render_timer_inactive [OF h])
qed

text \<open>
  The claim as stated asks for the two cells to be 0 in every state with an inactive
  session. A session started at time 0 at rate 2, one tick at 5000 ms, then a render with
  the session ended: this render has \<open>elapsedTime = 5\<close> and \<open>currentCost = 10\<close>.
\<close>

theorem inactive_session_stale_counterexample:
  "\<not> session_active (cur_session
        (run [Flush, Tick 5000,
              Rerender (Some \<lparr>session_id = ''s1'', isActive = False, startedAt = Some 0,
                               ratePerSecond = Some 2, x4pnEarned = None\<rparr>)]
           (mount (Some \<lparr>session_id = ''s1'', isActive = True, startedAt = Some 0,
                          ratePerSecond = Some 2, x4pnEarned = None\<rparr>))))
   \<and> elapsedTime
        (run [Flush, Tick 5000,
              Rerender (Some \<lparr>session_id = ''s1'', isActive = False, startedAt = Some 0,
                               ratePerSecond = Some 2, x4pnEarned = None\<rparr>)]
           (mount (Some \<lparr>session_id = ''s1'', isActive = True, startedAt = Some 0,
                          ratePerSecond = Some 2, x4pnEarned = None\<rparr>))) = 5
   \<and> currentCost
        (run [Flush, Tick 5000,
              Rerender (Some \<lparr>session_id = ''s1'', isActive = False, startedAt = Some 0,
                               ratePerSecond = Some 2, x4pnEarned = None\<rparr>)]
           (mount (Some \<lparr>session_id = ''s1'', isActive = True, startedAt = Some 0,
                          ratePerSecond = Some 2, x4pnEarned = None\<rparr>))) = 10"
  by (simp add: mount_def timer_effect_def timer_guard_def timer_cleanup_def tick_def
      elapsed_at_div or_zero_def session_active_def)

theorem inactive_session_zero_witness:
  "elapsedTime
     (run [Flush, Tick 5000,
           Rerender (Some \<lparr>session_id = ''s1'', isActive = False, startedAt = Some 0,
                            ratePerSecond = Some 2, x4pnEarned = None\<rparr>), Flush]
        (mount (Some \<lparr>session_id = ''s1'', isActive = True, startedAt = Some 0,
                       ratePerSecond = Some 2, x4pnEarned = None\<rparr>))) = 0
   \<and> currentCost
     (run [Flush, Tick 5000,
           Rerender (Some \<lparr>session_id = ''s1'', isActive = False, startedAt = Some 0,
                            ratePerSecond = Some 2, x4pnEarned = None\<rparr>), Flush]
        (mount (Some \<lparr>session_id = ''s1'', isActive = True, startedAt = Some 0,
                       ratePerSecond = Some 2, x4pnEarned = None\<rparr>))) = 0
   \<and> currentCost (step Flush (step (Rerender None)
        \<lparr>elapsedTime = 5, currentCost = 10, interval = Some (0, 2),
         cur_session = Some \<lparr>session_id = ''s1'', isActive = True, startedAt = Some 0,
                              ratePerSecond = Some 2, x4pnEarned = None\<rparr>,
         effect_pending = False\<rparr>)) = 0
   \<and> render_sc \<lparr>session = None, userBalance = 3, isConnecting = False\<rparr>
        \<lparr>elapsedTime = 5, currentCost = 10, interval = None, aiAnalysis = None,
         isAIAnalyzing = False, streamingText = [], isStreaming = False, showAuthDialog = False\<rparr>
      = render_sc \<lparr>session = None, userBalance = 3, isConnecting = False\<rparr>
        \<lparr>elapsedTime = 0, currentCost = 0, interval = None, aiAnalysis = None,
         isAIAnalyzing = False, streamingText = [], isStreaming = False, showAuthDialog = False\<rparr>"
proof -
  let ?off = "\<lparr>session_id = ''s1'', isActive = False, startedAt = Some 0,
                ratePerSecond = Some 2, x4pnEarned = None\<rparr>"
  let ?on = "\<lparr>session_id = ''s1'', isActive = True, startedAt = Some 0,
               ratePerSecond = Some 2, x4pnEarned = None\<rparr>"
  let ?es = "[Flush, Tick 5000, Rerender (Some ?off), Flush]"
  let ?st = "\<lparr>elapsedTime = 5, currentCost = 10, interval = Some (0, 2),
               cur_session = Some ?on, effect_pending = False\<rparr>"
  let ?p = "\<lparr>session = None, userBalance = 3, isConnecting = False\<rparr>"
  let ?c1 = "\<lparr>elapsedTime = 5, currentCost = 10, interval = None, aiAnalysis = None,
         isAIAnalyzing = False, streamingText = [], isStreaming = False, showAuthDialog = False\<rparr>"
  let ?c2 = "\<lparr>elapsedTime = 5, currentCost = 10, interval = None\<rparr>"
  let ?c3 = "\<lparr>elapsedTime = 5, currentCost = 10, interval = None, isProcessing = False,
         nodeReasoning = None, showReasoning = False\<rparr>"
  have pre1: "\<not> effect_pending (run ?es (mount (Some ?on)))
      \<and> \<not> session_active (cur_session (run ?es (mount (Some ?on))))"
    by (simp add: mount_def session_active_def timer_effect_def timer_guard_def
        timer_cleanup_def tick_def)
  have pre2: "\<not> session_active None" "\<not> session_active (session ?p)"
    by (simp_all add: session_active_def)
  from inactive_session_zero [of ?es "Some ?on" None ?st ?p ?c1 0 0 ?c2 None ?c3] pre1 pre2
  show ?thesis
    by simp
qed

section \<open>The connect control\<close>

text \<open>
  C5. With a balance of 0, or any balance \<open>\<le> 0\<close>, no render of any of the three
  components offers a connect control that can be clicked: while the session is not
  active the button is rendered with \<open>disabled\<close> true, and while it is active the button
  is not rendered.
\<close>

theorem connect_disabled_without_balance:
  assumes "userBalance p \<le> 0"
  shows "\<not> connect_clickable (render_sc p c1)
    \<and> \<not> connect_clickable (render_bsc p a c3)
    \<and> \<not> connect_clickable (render_scb p c2)
    \<and> (\<not> session_active (session p) \<longrightarrow>
          render_sc p c1 = InactiveView True \<and> render_bsc p a c3 = InactiveView True
          \<and> render_scb p c2 = InactiveView True)"
  using assms
  by (auto simp: connect_clickable_def render_sc_def render_bsc_def render_scb_def
      render_timer_def session_active_def split: option.splits)

theorem connect_disabled_without_balance_witness:
  "render_sc \<lparr>session = None, userBalance = 0, isConnecting = False\<rparr>
     \<lparr>elapsedTime = 0, currentCost = 0, interval = None, aiAnalysis = None,
      isAIAnalyzing = False, streamingText = [], isStreaming = False, showAuthDialog = False\<rparr>
     = InactiveView True
   \<and> render_bsc \<lparr>session = None, userBalance = 0, isConnecting = False\<rparr> (Some ''0xabc'')
     \<lparr>elapsedTime = 0, currentCost = 0, interval = None, isProcessing = False,
      nodeReasoning = None, showReasoning = False\<rparr>
     = InactiveView True
   \<and> render_scb \<lparr>session = None, userBalance = 0, isConnecting = False\<rparr>
     \<lparr>elapsedTime = 0, currentCost = 0, interval = None\<rparr>
     = InactiveView True"
proof -
  let ?p = "\<lparr>session = None, userBalance = 0, isConnecting = False\<rparr>"
  have b: "userBalance ?p \<le> 0"
    by simp
  have i: "\<not> session_active (session ?p)"
    by (simp add: session_active_def)
  from connect_disabled_without_balance [OF b] i show ?thesis
    by blast
qed

section \<open>Substitution of the location\<close>

lemma find_first_Some:
  "find_first pat s = Some (pre, post) \<Longrightarrow> s = pre @ pat @ post"
proof (induction s arbitrary: pre)
  case Nil
  then show ?case by (simp split: if_splits)
next
  case (Cons c cs)
  show ?case
  proof (cases "prefix pat (c # cs)")
    case True
    then obtain zs where zs: "c # cs = pat @ zs"
      by (auto simp: prefix_def)
    from True Cons.prems have "pre = []" "post = drop (length pat) (c # cs)"
      by simp_all
    then show ?thesis
      by (simp add: zs)
  next
    case False
    with Cons.prems obtain pre' where "find_first pat cs = Some (pre', post)" "pre = c # pre'"
      by auto
    with Cons.IH show ?thesis
      by simp
  qed
qed

lemma get_substitution_plain:
  "CHR ''$'' \<notin> set r \<Longrightarrow> get_substitution m pre post r = r"
  by (induction m pre post r rule: get_substitution.induct) auto

lemma js_replace_first:
  assumes "find_first pat s = Some (pre, post)" and "CHR ''$'' \<notin> set rep"
  shows "js_replace pat rep s = pre @ rep @ post"
  using assms by (simp add: js_replace_def get_substitution_plain)

lemma occurrences_none:
  "pat \<noteq> [] \<Longrightarrow> hd pat \<notin> set s \<Longrightarrow> occurrences pat s = 0"
  by (induction s) (auto simp: prefix_def neq_Nil_conv)

lemma occurrences_caps:
  assumes "l \<noteq> []" and "is_cap (hd l)"
  shows "occurrences l s = length (filter (prefix l) (caps_suffixes s))"
proof (induction s)
  case Nil
  from assms show ?case by simp
next
  case (Cons c cs)
  show ?case
  proof (cases "is_cap c")
    case True
    with Cons show ?thesis by simp
  next
    case False
    with assms have "\<not> prefix l (c # cs)"
      by (auto simp: prefix_def neq_Nil_conv)
    with False Cons show ?thesis by simp
  qed
qed

lemma pair_ok_sound:
  assumes "pair_ok e l"
  shows "\<exists>pre post. find_first ''{location}'' e = Some (pre, post)
      \<and> e = pre @ ''{location}'' @ post
      \<and> js_replace ''{location}'' l e = pre @ l @ post
      \<and> occurrences ''{location}'' (js_replace ''{location}'' l e) = 0
      \<and> occurrences l (js_replace ''{location}'' l e) = 1"
proof -
  from assms obtain pre post where ff: "find_first ''{location}'' e = Some (pre, post)"
    and nb: "list_all (\<lambda>c. c \<noteq> CHR ''{'') (pre @ l @ post)"
    and one: "length (filter (prefix l) (caps_suffixes (pre @ l @ post))) = Suc 0"
    and l: "l \<noteq> []" "is_cap (hd l)" and nd: "list_all (\<lambda>c. c \<noteq> CHR ''$'') l"
    by (auto simp: pair_ok_def split: option.splits)
  from nd have "CHR ''$'' \<notin> set l"
    by (auto simp: list_all_iff)
  with ff have r: "js_replace ''{location}'' l e = pre @ l @ post"
    by (rule js_replace_first)
  from nb have "hd ''{location}'' \<notin> set (pre @ l @ post)"
    by (auto simp: list_all_iff)
  then have z: "occurrences ''{location}'' (pre @ l @ post) = 0"
    by (intro occurrences_none) simp_all
  from one have o: "occurrences l (pre @ l @ post) = 1"
    by (simp add: occurrences_caps [OF l])
  from ff find_first_Some [OF ff] r z o show ?thesis
    by simp
qed

lemma prefix_Cons_Nil: "prefix (x # xs) [] = False"
  by simp

lemmas string_eval =
  pair_ok_def find_first.simps caps_suffixes.simps is_cap_def
  Cons_prefix_Cons Nil_prefix prefix_Cons_Nil char.inject char.sel simp_thms if_True if_False
  list.simps list.sel list.size(3) append.simps filter.simps list.pred_inject
  option.simps option.map prod.case length_Cons drop_Suc_Cons drop_0 nat.inject

lemma pool_sc: "list_all (\<lambda>(e, b, sc). list_all (pair_ok e) locations) analysisOptions"
  by (simp only: analysisOptions_def locations_def string_eval)

lemma pool_scb: "list_all (\<lambda>(e, b, sc). list_all (pair_ok e) locations_scb) analysisOptions_scb"
  by (simp only: analysisOptions_scb_def locations_scb_def string_eval)

lemma pool_bsc: "list_all (\<lambda>(e, b, sc). list_all (pair_ok e) locations_bsc) reasoningOptions"
  by (simp only: reasoningOptions_def locations_bsc_def string_eval)

lemma pick_in_range:
  assumes "0 \<le> r" and "r < 1" and "xs \<noteq> []"
  shows "\<exists>x \<in> set xs. pick r xs = Some x"
proof -
  let ?n = "length xs"
  from assms have n: "0 < ?n"
    by simp
  from assms have lo: "0 \<le> \<lfloor>r * of_nat ?n\<rfloor>"
    by simp
  from assms n have "r * of_nat ?n < 1 * of_nat ?n"
    by (intro mult_strict_right_mono) simp_all
  then have hi: "\<lfloor>r * of_nat ?n\<rfloor> < int ?n"
    by (simp add: floor_less_iff)
  from lo hi have "nat \<lfloor>r * of_nat ?n\<rfloor> < ?n"
    by linarith
  then have "xs ! nat \<lfloor>r * of_nat ?n\<rfloor> \<in> set xs"
    by (rule nth_mem)
  with lo hi show ?thesis
    by (simp add: pick_def Let_def)
qed

lemma generate_picks:
  assumes "0 \<le> r1" "r1 < 1" "0 \<le> r2" "r2 < 1" and "locs \<noteq> []" "opts \<noteq> []"
  shows "\<exists>l e b sc. l \<in> set locs \<and> (e, b, sc) \<in> set opts
      \<and> generate locs opts r1 r2
          = Some \<lparr>explanation = js_replace ''{location}'' l e, benefits = b, score = sc,
                  location = l\<rparr>"
proof -
  from pick_in_range [OF assms(1,2,5)] obtain l where l: "l \<in> set locs" "pick r1 locs = Some l"
    by blast
  from pick_in_range [OF assms(3,4,6)] obtain t where t: "t \<in> set opts" "pick r2 opts = Some t"
    by blast
  obtain e b sc where "t = (e, b, sc)"
    by (cases t) auto
  with l t show ?thesis
    by (auto simp: generate_def)
qed

lemma pools_checked:
  assumes "(g, locs, opts) \<in> {(generateAIAnalysis, locations, analysisOptions),
             (generateAIAnalysis_scb, locations_scb, analysisOptions_scb),
             (generateNodeReasoning, locations_bsc, reasoningOptions)}"
  shows "g = generate locs opts" and "locs \<noteq> []" and "opts \<noteq> []"
    and "\<And>e b sc l. (e, b, sc) \<in> set opts \<Longrightarrow> l \<in> set locs \<Longrightarrow> pair_ok e l"
proof -
  from assms consider
      "g = generateAIAnalysis" "locs = locations" "opts = analysisOptions"
    | "g = generateAIAnalysis_scb" "locs = locations_scb" "opts = analysisOptions_scb"
    | "g = generateNodeReasoning" "locs = locations_bsc" "opts = reasoningOptions"
    by auto
  then have "g = generate locs opts \<and> locs \<noteq> [] \<and> opts \<noteq> []
      \<and> list_all (\<lambda>(e, b, sc). list_all (pair_ok e) locs) opts"
  proof cases
    case 1
    then show ?thesis
      using pool_sc by (simp add: generateAIAnalysis_def locations_def analysisOptions_def)
  next
    case 2
    then show ?thesis
      using pool_scb
      by (simp add: generateAIAnalysis_scb_def locations_scb_def analysisOptions_scb_def)
  next
    case 3
    then show ?thesis
      using pool_bsc by (simp add: generateNodeReasoning_def locations_bsc_def reasoningOptions_def)
  qed
  then show "g = generate locs opts" and "locs \<noteq> []" and "opts \<noteq> []"
    and "\<And>e b sc l. (e, b, sc) \<in> set opts \<Longrightarrow> l \<in> set locs \<Longrightarrow> pair_ok e l"
    by (auto simp: list_all_iff)
qed

text \<open>
  C6. In each of the three components, for every template of the pool and every
  location of the list, the template is a text before, the placeholder, and a text after;
  \<open>replace\<close> gives the text before, the location, and the text after; no placeholder
  is left in the result and the location occurs in it exactly once. The generator, for
  any two values of \<open>Math.random()\<close>, returns such a result for a template of the pool
  and a location of the list, and reports that location.
\<close>

theorem location_substituted_once:
  assumes "(g, locs, opts) \<in> {(generateAIAnalysis, locations, analysisOptions),
             (generateAIAnalysis_scb, locations_scb, analysisOptions_scb),
             (generateNodeReasoning, locations_bsc, reasoningOptions)}"
    and "0 \<le> r1" "r1 < 1" "0 \<le> r2" "r2 < 1"
  shows "(\<forall>(e, b, sc) \<in> set opts. \<forall>l \<in> set locs.
            \<exists>pre post. e = pre @ ''{location}'' @ post
              \<and> js_replace ''{location}'' l e = pre @ l @ post
              \<and> occurrences ''{location}'' (js_replace ''{location}'' l e) = 0
              \<and> occurrences l (js_replace ''{location}'' l e) = 1)
    \<and> (\<exists>a e b sc. g r1 r2 = Some a \<and> (e, b, sc) \<in> set opts \<and> location a \<in> set locs
          \<and> explanation a = js_replace ''{location}'' (location a) e
          \<and> benefits a = b \<and> score a = sc)"
proof -
  note pc = pools_checked [OF assms(1)]
  have "\<exists>pre post. e = pre @ ''{location}'' @ post
      \<and> js_replace ''{location}'' l e = pre @ l @ post
      \<and> occurrences ''{location}'' (js_replace ''{location}'' l e) = 0
      \<and> occurrences l (js_replace ''{location}'' l e) = 1"
    if "(e, b, sc) \<in> set opts" "l \<in> set locs" for e b sc l
    using pair_ok_sound [OF pc(4) [OF that]] by blast
  then have first: "\<forall>(e, b, sc) \<in> set opts. \<forall>l \<in> set locs.
            \<exists>pre post. e = pre @ ''{location}'' @ post
              \<and> js_replace ''{location}'' l e = pre @ l @ post
              \<and> occurrences ''{location}'' (js_replace ''{location}'' l e) = 0
              \<and> occurrences l (js_replace ''{location}'' l e) = 1"
    by blast
  from generate_picks [OF assms(2-5) pc(2,3)] obtain l e b sc
    where "l \<in> set locs" "(e, b, sc) \<in> set opts"
      "generate locs opts r1 r2
        = Some \<lparr>explanation = js_replace ''{location}'' l e, benefits = b, score = sc,
                location = l\<rparr>"
    by blast
  then have "\<exists>a e b sc. g r1 r2 = Some a \<and> (e, b, sc) \<in> set opts \<and> location a \<in> set locs
          \<and> explanation a = js_replace ''{location}'' (location a) e
          \<and> benefits a = b \<and> score a = sc"
    by (simp add: pc(1)) force
  with first show ?thesis
    by blast
qed

theorem location_substituted_once_witness:
  "js_replace ''{location}'' ''Tokyo''
     ''Chosen a {location}-based server for its superior network redundancy and uptime history. The AI detected multiple failover paths ensuring uninterrupted VPN service with minimal packet loss.''
   = ''Chosen a Tokyo-based server for its superior network redundancy and uptime history. The AI detected multiple failover paths ensuring uninterrupted VPN service with minimal packet loss.''
   \<and> occurrences ''{location}''
       ''Chosen a Tokyo-based server for its superior network redundancy and uptime history. The AI detected multiple failover paths ensuring uninterrupted VPN service with minimal packet loss.'' = 0
   \<and> occurrences ''Tokyo''
       ''Chosen a Tokyo-based server for its superior network redundancy and uptime history. The AI detected multiple failover paths ensuring uninterrupted VPN service with minimal packet loss.'' = 1"
proof -
  let ?e = "''Chosen a {location}-based server for its superior network redundancy and uptime history. The AI detected multiple failover paths ensuring uninterrupted VPN service with minimal packet loss.''"
  have m: "(generateNodeReasoning, locations_bsc, reasoningOptions)
      \<in> {(generateAIAnalysis, locations, analysisOptions),
         (generateAIAnalysis_scb, locations_scb, analysisOptions_scb),
         (generateNodeReasoning, locations_bsc, reasoningOptions)}"
    by simp
  have r: "(0::rat) \<le> 0" "(0::rat) < 1" "(0::rat) \<le> 1 / 4" "(1 / 4 :: rat) < 1"
    by simp_all
  have e: "(?e, [''High Availability'', ''Network Redundancy'', ''Minimal Packet Loss''], 91) \<in> set reasoningOptions"
    by (simp add: reasoningOptions_def)
  have l: "''Tokyo'' \<in> set locations_bsc"
    by (simp add: locations_bsc_def)
  have v: "js_replace ''{location}'' ''Tokyo'' ?e
      = ''Chosen a Tokyo-based server for its superior network redundancy and uptime history. The AI detected multiple failover paths ensuring uninterrupted VPN service with minimal packet loss.''"
    by (simp only: js_replace_def get_substitution.simps string_eval)
  from location_substituted_once [OF m r] e l
  have "occurrences ''{location}'' (js_replace ''{location}'' ''Tokyo'' ?e) = 0
      \<and> occurrences ''Tokyo'' (js_replace ''{location}'' ''Tokyo'' ?e) = 1"
    by fast
  then show ?thesis
    unfolding v by simp
qed

section \<open>The connect flows\<close>

lemma replicate_6: "replicate 6 x = [x, x, x, x, x, x]"
  by (simp add: numeral_eq_Suc)

lemma parseUnits_two: "parseUnits ''2'' 6 = Some 2000000"
  by (simp add: parseUnits_def split_dot_def digit_val_def Let_def replicate_6)

lemma connect_rate_value: "connect_rate = Some 33333"
  by (simp add: connect_rate_def parseUnits_two bigint_div_def)




lemma await_Rejected: "await c (Rejected e) = ([c], Some e)"
  by (simp add: await_def)

lemma connect_body_start:
  "CallStartVPNSession a r \<in> set (fst (connect_body env reasoning))
     \<Longrightarrow> a = dummyAddress \<and> r = 33333 \<and> (\<exists>u. getSigner env = Resolved u)"
  by (cases "getSigner env"; cases "startVPNSession env"; cases "start_wait env")
    (auto simp: connect_body_def connect_rate_value await_def notify_def split: if_splits)

lemma connect_catch_no_start: "CallStartVPNSession a r \<notin> set (connect_catch e)"
  by (simp add: connect_catch_def)

lemma handleConnect_start:
  assumes "CallStartVPNSession a r \<in> set (handleConnect env)"
  shows "a = dummyAddress \<and> r = 33333 \<and> (\<exists>u. getSigner env = Resolved u)"
proof -
  from assms obtain reasoning where
    "CallStartVPNSession a r \<in> set (try_catch_finally (connect_body env reasoning) connect_catch
        [SetIsProcessing False])"
    by (auto simp: handleConnect_def split: if_splits option.splits)
  then have "CallStartVPNSession a r \<in> set (fst (connect_body env reasoning))"
    by (cases "connect_body env reasoning")
      (auto simp: try_catch_finally_def connect_catch_no_start split: option.splits)
  then show ?thesis
    by (rule connect_body_start)
qed

lemma handleConnect_reaches_start:
  assumes "truthy (address env)" "has_ethereum env" "getSigner env = Resolved u"
    and "0 \<le> random1 env" "random1 env < 1" "0 \<le> random2 env" "random2 env < 1"
  shows "CallStartVPNSession dummyAddress 33333 \<in> set (handleConnect env)"
proof -
  have "locations_bsc \<noteq> []" "reasoningOptions \<noteq> []"
    by (simp_all add: locations_bsc_def reasoningOptions_def)
  from generate_picks [OF assms(4-7) this] obtain reasoning
    where g: "generateNodeReasoning (random1 env) (random2 env) = Some reasoning"
    by (auto simp: generateNodeReasoning_def)
  have "CallStartVPNSession dummyAddress 33333 \<in> set (fst (connect_body env reasoning))"
    using assms(3)
    by (cases "startVPNSession env"; cases "start_wait env")
      (auto simp: connect_body_def connect_rate_value await_def)
  then have "CallStartVPNSession dummyAddress 33333
      \<in> set (try_catch_finally (connect_body env reasoning) connect_catch [SetIsProcessing False])"
    by (cases "connect_body env reasoning") (auto simp: try_catch_finally_def)
  with assms(1,2) g show ?thesis
    by (simp add: handleConnect_def)
qed

text \<open>
  C10. The rate handed to \<open>startVPNSession\<close> is the BigInt quotient of
  \<open>parseUnits("2", 6) = 2000000\<close> by 60, which is 33333, the division leaving the
  remainder 20; every call of \<open>startVPNSession\<close> that \<open>handleConnect\<close> makes carries this
  rate and the fixed target address, and the call is made whenever the wallet address
  and the provider are there and the signer is obtained.
\<close>

theorem start_rate_33333:
  "parseUnits ''2'' 6 = Some 2000000
   \<and> connect_rate = Some 33333
   \<and> (2000000 :: int) = 60 * 33333 + 20
   \<and> (CallStartVPNSession a r \<in> set (handleConnect env) \<longrightarrow> r = 33333 \<and> a = dummyAddress)
   \<and> (truthy (address env) \<and> has_ethereum env \<and> (\<exists>u. getSigner env = Resolved u)
        \<and> 0 \<le> random1 env \<and> random1 env < 1 \<and> 0 \<le> random2 env \<and> random2 env < 1
       \<longrightarrow> CallStartVPNSession dummyAddress 33333 \<in> set (handleConnect env))"
proof -
  note parseUnits_two
  moreover note connect_rate_value
  moreover have "(2000000 :: int) = 60 * 33333 + 20"
    by simp
  moreover have "CallStartVPNSession a r \<in> set (handleConnect env) \<longrightarrow> r = 33333 \<and> a = dummyAddress"
    using handleConnect_start by blast
  moreover have "truthy (address env) \<and> has_ethereum env \<and> (\<exists>u. getSigner env = Resolved u)
        \<and> 0 \<le> random1 env \<and> random1 env < 1 \<and> 0 \<le> random2 env \<and> random2 env < 1
       \<longrightarrow> CallStartVPNSession dummyAddress 33333 \<in> set (handleConnect env)"
    using handleConnect_reaches_start by blast
  ultimately show ?thesis
    by blast
qed



lemma stream_words_no_connect: "CallOnConnect \<notin> set (stream_words i ws)"
  by (induction ws arbitrary: i) simp_all







section \<open>The disconnect flow\<close>

















theorem start_rate_33333_witness:
  "CallStartVPNSession ''0xa9bd972853e366cd908591bc929a2e68006aba02'' 33333 \<in> set
      (handleConnect \<lparr>address = Some ''0xabc'', has_ethereum = True, random1 = 0, random2 = 0,
         getSigner = Resolved (),
         startVPNSession = Rejected \<lparr>reason = Some ''insufficient funds'', message = None\<rparr>,
         start_wait = Resolved None,
         settleVPNSession = Resolved (), settle_wait = Resolved None,
         endVPNSession = Resolved (), end_wait = Resolved None, onSessionChange = True\<rparr>)"
proof -
  let ?env = "\<lparr>address = Some ''0xabc'', has_ethereum = True, random1 = 0, random2 = 0,
         getSigner = Resolved (),
         startVPNSession = Rejected \<lparr>reason = Some ''insufficient funds'', message = None\<rparr>,
         start_wait = Resolved None,
         settleVPNSession = Resolved (), settle_wait = Resolved None,
         endVPNSession = Resolved (), end_wait = Resolved None, onSessionChange = True\<rparr>"
  have "truthy (address ?env) \<and> has_ethereum ?env \<and> (\<exists>u. getSigner ?env = Resolved u)
        \<and> 0 \<le> random1 ?env \<and> random1 ?env < 1 \<and> 0 \<le> random2 ?env \<and> random2 ?env < 1"
    by (simp add: truthy_def)
  with start_rate_33333 [where env = ?env]
  have "CallStartVPNSession dummyAddress 33333 \<in> set (handleConnect ?env)"
    by blast
  then show ?thesis
    by (simp add: dummyAddress_def)
qed



section \<open>Reasoning factors\<close>



lemma average_empty: "average f [] = NaN"
  by (simp add: average_def js_div_def)




section \<open>Database configuration\<close>




end
